theory Spec2Isabelle
  imports Complex_Main "HOL-Library.Signed_Division"
begin

unbundle bit_operations_syntax

section \<open>Domain model: tracks and the playlist\<close>

text \<open>
  The player of \<^verbatim>\<open>playlist/assets/js/scripts.js\<close> has three classes. This theory embeds
  the two that carry logic, \<^verbatim>\<open>Playlist\<close> and \<^verbatim>\<open>AudioEngine\<close>, as functions on records.

  JavaScript numbers are IEEE doubles. Where the source computes with integers
  (the playlist index, string lengths, bit operations) they are modelled as \<open>int\<close>:
  integer-valued doubles below \<open>2^53\<close> in magnitude add and take remainders exactly.
  Where it computes with fractions (times, the sine wave) a finite double is modelled
  as the \<open>real\<close> it denotes and each operation as the exact one, without rounding;
  NaN and the two infinities are values of their own.
\<close>

subsection \<open>Track\<close>

text \<open>The argument object of \<^verbatim>\<open>new Track(data)\<close>: the optional properties may be absent.\<close>

record track_data =
  data_id :: string
  data_title :: string
  data_artist :: "string option"
  data_audioUrl :: "string option"
  data_color :: "string option"

record track =
  track_id :: string
  title :: string
  artist :: string
  audioUrl :: string
  color :: "string option"

text \<open>The constructor: \<^verbatim>\<open>??\<close> supplies the default of an absent property.\<close>

definition new_Track :: "track_data \<Rightarrow> track" where
  "new_Track d =
     \<lparr>track_id = data_id d,
      title = data_title d,
      artist = (case data_artist d of None \<Rightarrow> ''Artista'' | Some a \<Rightarrow> a),
      audioUrl = (case data_audioUrl d of None \<Rightarrow> '''' | Some u \<Rightarrow> u),
      color = data_color d\<rparr>"

subsection \<open>Playlist\<close>

record playlist =
  tracks :: "track list"
  index :: int

definition new_Playlist :: "track list \<Rightarrow> playlist" where
  "new_Playlist ts = \<lparr>tracks = ts, index = 0\<rparr>"

text \<open>
  The remainder operator \<^verbatim>\<open>%\<close> of JavaScript truncates: the result has the sign of the
  dividend. On integers with a non-zero divisor that is \<open>smod\<close>. (With divisor 0 JavaScript
  yields NaN; \<open>setIndex\<close> returns before it can divide by an empty playlist's length.)
\<close>

definition js_rem :: "int \<Rightarrow> int \<Rightarrow> int" where
  "js_rem a b = a smod b"

text \<open>
  \<^verbatim>\<open>setIndex(i){ if(!this.tracks.length) return;
     this.index = ((i % this.tracks.length) + this.tracks.length) % this.tracks.length; }\<close>
\<close>

definition setIndex :: "playlist \<Rightarrow> int \<Rightarrow> playlist" where
  "setIndex p i =
     (let n = int (length (tracks p)) in
      if n = 0 then p
      else p\<lparr>index := js_rem (js_rem i n + n) n\<rparr>)"

text \<open>
  \<^verbatim>\<open>current(){ return this.tracks[this.index] ?? null; }\<close>
  Reading an array outside its bounds yields \<^verbatim>\<open>undefined\<close>, which \<^verbatim>\<open>??\<close> turns into
  \<^verbatim>\<open>null\<close>: the value \<open>None\<close> here.
\<close>

definition current :: "playlist \<Rightarrow> track option" where
  "current p =
     (if 0 \<le> index p \<and> index p < int (length (tracks p))
      then Some (tracks p ! nat (index p)) else None)"

text \<open>
  \<^verbatim>\<open>next(){ this.setIndex(this.index + 1); return this.current(); }\<close> and
  \<^verbatim>\<open>prev(){ this.setIndex(this.index - 1); return this.current(); }\<close>:
  the returned track together with the updated playlist.
\<close>

definition "next" :: "playlist \<Rightarrow> track option \<times> playlist" where
  "next p = (let p' = setIndex p (index p + 1) in (current p', p'))"

definition prev :: "playlist \<Rightarrow> track option \<times> playlist" where
  "prev p = (let p' = setIndex p (index p - 1) in (current p', p'))"

text \<open>\<^verbatim>\<open>byId(id){ return this.tracks.find(t => t.id === id) ?? null; }\<close>\<close>

definition byId :: "playlist \<Rightarrow> string \<Rightarrow> track option" where
  "byId p x = find (\<lambda>t. track_id t = x) (tracks p)"

text \<open>
  Sequences of navigation calls, as the user interface issues them
  (a click on a tile, the buttons and the arrow keys).
\<close>

datatype nav = SetIndex int | Next | Prev

fun navigate :: "playlist \<Rightarrow> nav \<Rightarrow> playlist" where
  "navigate p (SetIndex i) = setIndex p i"
| "navigate p Next = snd (next p)"
| "navigate p Prev = snd (prev p)"

definition navigate_all :: "playlist \<Rightarrow> nav list \<Rightarrow> playlist" where
  "navigate_all p ops = foldl navigate p ops"

text \<open>The cursor of a playlist is in range: vacuous for an empty playlist.\<close>

definition cursor_ok :: "playlist \<Rightarrow> bool" where
  "cursor_ok p = (tracks p = [] \<or> (0 \<le> index p \<and> index p < int (length (tracks p))))"

text \<open>Three tracks for the concrete checks below.\<close>

definition demo3 :: "track list" where
  "demo3 =
     [\<lparr>track_id = ''1'', title = ''A'', artist = ''Canal A'', audioUrl = ''assets/musics/1.mp3'', color = None\<rparr>,
      \<lparr>track_id = ''2'', title = ''B'', artist = ''Canal B'', audioUrl = ''assets/audio2.mp3'', color = None\<rparr>,
      \<lparr>track_id = ''3'', title = ''C'', artist = ''Canal C'', audioUrl = '''', color = None\<rparr>]"

section \<open>The audio engine\<close>

subsection \<open>Numbers that may be NaN or infinite\<close>

text \<open>
  \<^verbatim>\<open>audio.duration\<close> is NaN until the metadata of a source has arrived and
  \<^verbatim>\<open>Infinity\<close> for a stream without an end. A number is NaN, a finite value or one of the
  two infinities; the operations below are the ones the engine applies, with the rules
  of IEEE arithmetic for the special values. A comparison with NaN is false, NaN and 0
  are falsy and the infinities truthy, and arithmetic, \<^verbatim>\<open>Math.min\<close> and \<^verbatim>\<open>Math.max\<close> pass
  NaN on. The sign of a zero is not modelled: every zero is the positive one.
\<close>

datatype jsnum = NaN | Num real | PInf | NInf




fun js_gt :: "jsnum \<Rightarrow> jsnum \<Rightarrow> bool" where
  "js_gt NaN y = False"
| "js_gt x NaN = False"
| "js_gt (Num a) (Num b) = (a > b)"
| "js_gt (Num a) PInf = False"
| "js_gt (Num a) NInf = True"
| "js_gt PInf (Num b) = True"
| "js_gt PInf PInf = False"
| "js_gt PInf NInf = True"
| "js_gt NInf y = False"

fun js_mul :: "jsnum \<Rightarrow> jsnum \<Rightarrow> jsnum" where
  "js_mul NaN y = NaN"
| "js_mul x NaN = NaN"
| "js_mul (Num a) (Num b) = Num (a * b)"
| "js_mul (Num a) PInf = (if a = 0 then NaN else if 0 < a then PInf else NInf)"
| "js_mul (Num a) NInf = (if a = 0 then NaN else if 0 < a then NInf else PInf)"
| "js_mul PInf (Num b) = (if b = 0 then NaN else if 0 < b then PInf else NInf)"
| "js_mul NInf (Num b) = (if b = 0 then NaN else if 0 < b then NInf else PInf)"
| "js_mul PInf PInf = PInf"
| "js_mul PInf NInf = NInf"
| "js_mul NInf PInf = NInf"
| "js_mul NInf NInf = PInf"




subsection \<open>The audio element, seeking and the time report\<close>

text \<open>The properties of \<^verbatim>\<open>this.audio\<close> that the engine reads and writes.\<close>

record audio =
  src :: string
  currentTime :: jsnum
  duration :: jsnum

text \<open>
  \<^verbatim>\<open>seekPercent(p){ if(this.audio.duration>0){
     this.audio.currentTime = p * this.audio.duration; } }\<close>
\<close>

definition seekPercent :: "audio \<Rightarrow> jsnum \<Rightarrow> audio" where
  "seekPercent a p =
     (if js_gt (duration a) (Num 0) then a\<lparr>currentTime := js_mul p (duration a)\<rparr> else a)"



subsection \<open>The generated tone\<close>

text \<open>
  A JavaScript string is a sequence of 16-bit code units; the tone is built as such a
  string, one code unit per byte. \<open>str\<close> reads an ASCII literal, and
  \<^verbatim>\<open>String.fromCharCode\<close> reduces each argument modulo \<open>2^16\<close>.
\<close>

type_synonym jsstring = "nat list"

definition str :: "string \<Rightarrow> jsstring" where
  "str s = map of_char s"

definition fromCharCode :: "int list \<Rightarrow> jsstring" where
  "fromCharCode cs = map (\<lambda>c. nat (c mod 65536)) cs"

text \<open>
  \<^verbatim>\<open>x | 0\<close> is the conversion to a signed 32-bit integer: truncate towards zero, reduce
  modulo \<open>2^32\<close>, read as two's complement.
\<close>

definition to_int32 :: "real \<Rightarrow> int" where
  "to_int32 x =
     (let t = (if x < 0 then - \<lfloor>- x\<rfloor> else \<lfloor>x\<rfloor>);
          m = t mod 2 ^ 32
      in if 2 ^ 31 \<le> m then m - 2 ^ 32 else m)"

text \<open>
  \<^verbatim>\<open>const sampleRate = 8000, seconds = 0.25, len = sampleRate * seconds | 0, freq=440;\<close>
\<close>

definition sampleRate :: int where "sampleRate = 8000"
definition seconds :: real where "seconds = 0.25"
definition len :: int where "len = to_int32 (real_of_int sampleRate * seconds)"
definition freq :: int where "freq = 440"

text \<open>
  \<^verbatim>\<open>const header = "RIFF????WAVEfmt "+String.fromCharCode(16,0,0,0,1,0,1,0,
     sampleRate&255,(sampleRate>>8)&255,(sampleRate>>16)&255,(sampleRate>>24)&255,
     1,0,8,0)+"data????";\<close>
\<close>

definition header :: jsstring where
  "header = str ''RIFF????WAVEfmt '' @
     fromCharCode [16, 0, 0, 0, 1, 0, 1, 0,
       sampleRate AND 255, drop_bit 8 sampleRate AND 255,
       drop_bit 16 sampleRate AND 255, drop_bit 24 sampleRate AND 255,
       1, 0, 8, 0] @
     str ''data????''"

text \<open>
  The body of the loop:
  \<^verbatim>\<open>const v = Math.sin(2*Math.PI*freq*i/sampleRate);
  const u8 = (v*0.35 + 0.5)*255 | 0;\<close>
\<close>

definition v :: "int \<Rightarrow> real" where
  "v i = sin (2 * pi * real_of_int freq * real_of_int i / real_of_int sampleRate)"

definition u8 :: "int \<Rightarrow> int" where
  "u8 i = to_int32 ((v i * 0.35 + 0.5) * 255)"

text \<open>
  \<^verbatim>\<open>let data = ""; for(let i=0;i<len;i++){ ... data += String.fromCharCode(u8); }\<close>
\<close>

function data_loop :: "int \<Rightarrow> jsstring \<Rightarrow> jsstring" where
  "data_loop i d = (if i < len then data_loop (i + 1) (d @ fromCharCode [u8 i]) else d)"
  by pat_completeness auto
termination
  by (relation "measure (\<lambda>(i, d). nat (len - i))") auto

definition data :: jsstring where
  "data = data_loop 0 []"

text \<open>
  \<^verbatim>\<open>const totalSize = 36 + data.length; const chunkSize = data.length;
  function u32(n){ return String.fromCharCode(n&255,(n>>8)&255,(n>>16)&255,(n>>24)&255); }\<close>
\<close>

definition totalSize :: int where "totalSize = 36 + int (length data)"
definition chunkSize :: int where "chunkSize = int (length data)"

definition u32 :: "int \<Rightarrow> jsstring" where
  "u32 n = fromCharCode
     [n AND 255, drop_bit 8 n AND 255, drop_bit 16 n AND 255, drop_bit 24 n AND 255]"

text \<open>
  \<^verbatim>\<open>String.prototype.replace\<close> with a string pattern replaces the first occurrence.
  (A dollar sign in the replacement would start a substitution pattern; the two
  replacements made here contain none, see \<open>replacements_plain\<close>.)
\<close>

fun js_replace :: "jsstring \<Rightarrow> jsstring \<Rightarrow> jsstring \<Rightarrow> jsstring" where
  "js_replace [] pat rep = (if pat = [] then rep else [])"
| "js_replace (c # s) pat rep =
     (if take (length pat) (c # s) = pat then rep @ drop (length pat) (c # s)
      else c # js_replace s pat rep)"

text \<open>
  \<^verbatim>\<open>const wav = header.replace("????", u32(totalSize).slice(0,4))
                    .replace("????", u32(chunkSize).slice(0,4)) + data;\<close>
\<close>

definition wav :: jsstring where
  "wav = js_replace (js_replace header (str ''????'') (take 4 (u32 totalSize)))
           (str ''????'') (take 4 (u32 chunkSize)) @ data"

text \<open>
  \<^verbatim>\<open>btoa\<close> encodes a string of bytes in base 64 and throws when a code unit exceeds 255.
\<close>

datatype dom_exception = InvalidCharacterError

definition b64_alphabet :: string where
  "b64_alphabet = ''ABCDEFGHIJKLMNOPQRSTUVWXYZabcdefghijklmnopqrstuvwxyz0123456789+/''"

definition b64_char :: "nat \<Rightarrow> char" where
  "b64_char n = b64_alphabet ! n"

fun b64_encode :: "nat list \<Rightarrow> string" where
  "b64_encode (a # b # c # rest) =
     b64_char (a div 4) # b64_char ((a mod 4) * 16 + b div 16) #
     b64_char ((b mod 16) * 4 + c div 64) # b64_char (c mod 64) # b64_encode rest"
| "b64_encode [a, b] =
     [b64_char (a div 4), b64_char ((a mod 4) * 16 + b div 16),
      b64_char ((b mod 16) * 4), CHR ''='']"
| "b64_encode [a] = [b64_char (a div 4), b64_char ((a mod 4) * 16), CHR ''='', CHR ''='']"
| "b64_encode [] = []"

definition btoa :: "jsstring \<Rightarrow> dom_exception + string" where
  "btoa s = (if list_ex (\<lambda>c. 255 < c) s then Inl InvalidCharacterError
             else Inr (b64_encode s))"

text \<open>\<^verbatim>\<open>return "data:audio/wav;base64," + btoa(wav);\<close>\<close>

definition tinyBeepDataURI :: "dom_exception + string" where
  "tinyBeepDataURI =
     (case btoa wav of Inl e \<Rightarrow> Inl e | Inr b \<Rightarrow> Inr (''data:audio/wav;base64,'' @ b))"

subsection \<open>Loading a track\<close>

text \<open>
  \<^verbatim>\<open>async load(track){
    if(!track || !track.audioUrl){ this.audio.src = this._tinyBeepDataURI(); }
    else{ this.audio.src = track.audioUrl; }
    await this.audio.load?.(); }\<close>
  A track that is \<^verbatim>\<open>null\<close> is \<open>None\<close>; an empty string is falsy. The element's own
  \<^verbatim>\<open>load()\<close> belongs to the browser: it is the parameter \<open>elem_load\<close>, \<open>None\<close> for an
  element without that method, which the optional call skips. An exception rejects the
  promise: the result \<open>Inl\<close>.
\<close>

definition load :: "(audio \<Rightarrow> audio) option \<Rightarrow> audio \<Rightarrow> track option \<Rightarrow> dom_exception + audio" where
  "load elem_load a t =
     (case (case t of
              None \<Rightarrow> tinyBeepDataURI
            | Some tr \<Rightarrow> if audioUrl tr = [] then tinyBeepDataURI else Inr (audioUrl tr)) of
        Inl e \<Rightarrow> Inl e
      | Inr s \<Rightarrow>
          Inr (case elem_load of
                 None \<Rightarrow> a\<lparr>src := s\<rparr>
               | Some f \<Rightarrow> f (a\<lparr>src := s\<rparr>)))"

text \<open>
  For the concrete checks: an element before any source is set, and a \<^verbatim>\<open>load()\<close>
  that rewinds the element and forgets the duration.
\<close>

definition idle_audio :: audio where
  "idle_audio = \<lparr>src = [], currentTime = Num 0, duration = NaN\<rparr>"

definition rewind :: "audio \<Rightarrow> audio" where
  "rewind a = a\<lparr>currentTime := Num 0, duration := NaN\<rparr>"

section \<open>Playlist: the wrap-around of the index\<close>

lemma js_rem_neg: "0 < n \<Longrightarrow> i < 0 \<Longrightarrow> js_rem i n = - ((- i) mod n)"
  by (simp add: js_rem_def signed_modulo_int_def)

lemma js_rem_nonneg: "0 < n \<Longrightarrow> 0 \<le> a \<Longrightarrow> js_rem a n = a mod n"
  by (cases "a = 0") (simp_all add: js_rem_def signed_modulo_int_def)

text \<open>The naive remainder of a negative index is negative, but stays above \<open>- n\<close>.\<close>

lemma js_rem_lower:
  assumes "0 < n"
  shows "- n < js_rem i n"
proof (cases "i < 0")
  case True
  have "(- i) mod n < n" using assms by simp
  moreover have "js_rem i n = - ((- i) mod n)"
    using True assms by (simp add: js_rem_neg)
  ultimately show ?thesis by linarith
next
  case False
  have "0 \<le> i mod n" using assms by simp
  moreover have "js_rem i n = i mod n"
    using False assms by (simp add: js_rem_nonneg)
  ultimately show ?thesis using assms by linarith
qed

lemma js_rem_cong:
  assumes "0 < n"
  shows "js_rem i n mod n = i mod n"
proof (cases "i < 0")
  case False
  with assms show ?thesis by (simp add: js_rem_nonneg)
next
  case True
  with assms have "js_rem i n = - ((- i) mod n)"
    by (simp add: js_rem_neg)
  then have "js_rem i n mod n = (- ((- i) mod n)) mod n" by simp
  also have "\<dots> = (- (- i)) mod n" by (rule mod_minus_eq)
  finally show ?thesis by simp
qed

text \<open>The double remainder of \<open>setIndex\<close> is the floor modulus.\<close>

lemma double_rem_floor_mod:
  assumes "0 < n"
  shows "js_rem (js_rem i n + n) n = i mod n"
proof -
  have "0 \<le> js_rem i n + n"
    using js_rem_lower [OF assms, of i] by simp
  then have "js_rem (js_rem i n + n) n = (js_rem i n + n) mod n"
    using assms by (simp add: js_rem_nonneg)
  also have "\<dots> = js_rem i n mod n" by simp
  also have "\<dots> = i mod n" using assms by (rule js_rem_cong)
  finally show ?thesis .
qed

lemma setIndex_nonempty:
  assumes "tracks p \<noteq> []"
  shows "setIndex p i = p\<lparr>index := i mod int (length (tracks p))\<rparr>"
  using assms by (simp add: setIndex_def Let_def double_rem_floor_mod)

lemma setIndex_empty:
  assumes "tracks p = []"
  shows "setIndex p i = p"
  using assms by (simp add: setIndex_def)

lemma tracks_setIndex: "tracks (setIndex p i) = tracks p"
  by (simp add: setIndex_def Let_def)

lemma cursor_ok_setIndex: "cursor_ok (setIndex p i)"
  by (cases "tracks p = []") (simp_all add: setIndex_nonempty setIndex_empty cursor_ok_def)

lemma current_in_range:
  assumes "0 \<le> index p" and "index p < int (length (tracks p))"
  shows "current p = Some (tracks p ! nat (index p))"
  using assms by (simp add: current_def)

lemma current_empty:
  assumes "tracks p = []"
  shows "current p = None"
  using assms by (simp add: current_def)

lemma current_setIndex:
  assumes "tracks p \<noteq> []"
  shows "current (setIndex p i) = Some (tracks p ! nat (i mod int (length (tracks p))))"
  using assms by (simp add: setIndex_nonempty current_def)

text \<open>Each navigation call keeps the tracks and leaves the cursor in range.\<close>

lemma navigate_keeps:
  shows "tracks (navigate p c) = tracks p" and "cursor_ok (navigate p c)"
  by (cases c; simp add: next_def prev_def Let_def tracks_setIndex cursor_ok_setIndex)+

lemma navigate_all_keeps:
  assumes "cursor_ok p"
  shows "tracks (foldl navigate p cs) = tracks p \<and> cursor_ok (foldl navigate p cs)"
  using assms
proof (induction cs arbitrary: p)
  case Nil
  then show ?case by simp
next
  case (Cons c cs)
  have "cursor_ok (navigate p c)" by (rule navigate_keeps(2))
  from Cons.IH [OF this] show ?case by (simp add: navigate_keeps(1))
qed

lemma cursor_ok_new: "cursor_ok (new_Playlist ts)"
  by (cases ts) (simp_all add: cursor_ok_def new_Playlist_def)

text \<open>Stepping forward and then back restores the index of a playlist whose cursor is in range.\<close>

lemma next_prev_index:
  assumes "0 < n" and "0 \<le> k" and "k < n"
  shows "((k + 1) mod n - 1) mod n = (k::int)"
proof -
  have "((k + 1) mod n - 1) mod n = (k + 1 - 1) mod n"
    by (rule mod_diff_left_eq)
  also have "\<dots> = k" using assms by simp
  finally show ?thesis .
qed

lemma next_then_prev:
  assumes "cursor_ok p"
  shows "snd (prev (snd (next p))) = p"
proof (cases "tracks p = []")
  case True
  then show ?thesis by (simp add: next_def prev_def Let_def setIndex_empty)
next
  case False
  let ?n = "int (length (tracks p))"
  from False assms have rng: "0 \<le> index p" "index p < ?n" "0 < ?n"
    by (simp_all add: cursor_ok_def)
  have "snd (prev (snd (next p))) = p\<lparr>index := ((index p + 1) mod ?n - 1) mod ?n\<rparr>"
    using False by (simp add: next_def prev_def Let_def setIndex_nonempty)
  also have "\<dots> = p\<lparr>index := index p\<rparr>"
    using rng by (simp only: next_prev_index)
  finally show ?thesis by simp
qed

lemma prev_after_next:
  assumes "cursor_ok p"
  shows "fst (prev (snd (next p))) = current p"
    and "snd (prev (snd (next p))) = p"
proof -
  show restored: "snd (prev (snd (next p))) = p"
    using assms by (rule next_then_prev)
  have "fst (prev (snd (next p))) = current (snd (prev (snd (next p))))"
    by (simp add: prev_def Let_def)
  with restored show "fst (prev (snd (next p))) = current p" by simp
qed

text \<open>Every state reached from the constructor has its cursor in range.\<close>

lemma reachable_cursor_ok: "cursor_ok (navigate_all (new_Playlist ts) cs)"
  unfolding navigate_all_def using cursor_ok_new navigate_all_keeps by blast

text \<open>
  The range of the cursor matters: were the index of a non-empty playlist set from
  outside to a position beyond the tracks, which no method does, \<open>current\<close> would be
  null before the round trip and a track after it.
\<close>

lemma cursor_out_of_range:
  "current \<lparr>tracks = demo3, index = 5\<rparr> = None
   \<and> fst (prev (snd (next \<lparr>tracks = demo3, index = 5\<rparr>))) = Some (demo3 ! 2)"
  by (simp add: demo3_def current_def next_def prev_def setIndex_def Let_def js_rem_def
      signed_modulo_int_def)

text \<open>A track made without an \<open>audioUrl\<close> has the empty one.\<close>

lemma new_Track_audioUrl:
  "audioUrl (new_Track d) = (case data_audioUrl d of None \<Rightarrow> [] | Some u \<Rightarrow> u)"
  by (simp add: new_Track_def)

section \<open>Playlist: the claims\<close>

text \<open>
  Claim C1. For a playlist with a non-empty track list of length \<open>n\<close> and every integer
  \<open>i\<close>, negative or beyond \<open>n\<close> included, \<open>setIndex i\<close> followed by \<open>current\<close> returns the
  track at position \<open>((i % n) + n) % n\<close>, with \<open>%\<close> the truncating remainder of
  JavaScript; that position is the floor modulus \<open>i mod n\<close> and lies in \<open>[0, n)\<close>.
\<close>

theorem setIndex_current_wraps:
  assumes "tracks p \<noteq> []"
  shows "current (setIndex p i) =
           Some (tracks p ! nat (js_rem (js_rem i (int (length (tracks p))) + int (length (tracks p)))
                                   (int (length (tracks p)))))
         \<and> js_rem (js_rem i (int (length (tracks p))) + int (length (tracks p))) (int (length (tracks p)))
             = i mod int (length (tracks p))
         \<and> 0 \<le> i mod int (length (tracks p))
         \<and> i mod int (length (tracks p)) < int (length (tracks p))"
proof -
  from assms have pos: "0 < int (length (tracks p))" by simp
  have "current (setIndex p i) = Some (tracks p ! nat (i mod int (length (tracks p))))"
    using assms by (rule current_setIndex)
  with pos show ?thesis by (simp add: double_rem_floor_mod)
qed

theorem setIndex_current_wraps_witness:
  "tracks (new_Playlist demo3) \<noteq> []
   \<and> current (setIndex (new_Playlist demo3) (- 1)) = Some (demo3 ! 2)
   \<and> current (setIndex (new_Playlist demo3) 7) = Some (demo3 ! 1)"
  using setIndex_current_wraps [of "new_Playlist demo3" "- 1"]
    setIndex_current_wraps [of "new_Playlist demo3" 7]
  by (simp add: new_Playlist_def demo3_def)

text \<open>
  Claim C7. On an empty playlist \<open>current\<close>, \<open>next\<close> and \<open>prev\<close> return null and change
  nothing; \<open>setIndex\<close> is defined on every integer (it keeps the tracks and leaves the
  cursor in range, and is the identity on an empty playlist); and \<open>byId\<close> returns null
  when no track has the identifier.
\<close>

theorem empty_playlist_and_lookup_safe:
  "(tracks p = [] \<longrightarrow>
      current p = None \<and> next p = (None, p) \<and> prev p = (None, p) \<and> setIndex p i = p)
   \<and> tracks (setIndex q i) = tracks q \<and> cursor_ok (setIndex q i)
   \<and> ((\<forall>t \<in> set (tracks q). track_id t \<noteq> x) \<longrightarrow> byId q x = None)"
proof -
  have "tracks p = [] \<longrightarrow>
      current p = None \<and> next p = (None, p) \<and> prev p = (None, p) \<and> setIndex p i = p"
    by (simp add: next_def prev_def Let_def setIndex_empty current_empty)
  moreover have "(\<forall>t \<in> set (tracks q). track_id t \<noteq> x) \<longrightarrow> byId q x = None"
    by (simp add: byId_def find_None_iff)
  ultimately show ?thesis
    by (simp add: tracks_setIndex cursor_ok_setIndex)
qed

theorem empty_playlist_and_lookup_safe_witness:
  "tracks (new_Playlist []) = []
   \<and> current (new_Playlist []) = None
   \<and> next (new_Playlist []) = (None, new_Playlist [])
   \<and> prev (new_Playlist []) = (None, new_Playlist [])
   \<and> setIndex (new_Playlist []) (- 4) = new_Playlist []
   \<and> ''9'' \<notin> set (map track_id (tracks (new_Playlist demo3)))
   \<and> byId (new_Playlist demo3) ''9'' = None"
  using empty_playlist_and_lookup_safe [of "new_Playlist []" "- 4" "new_Playlist demo3" "''9''"]
  by (simp add: new_Playlist_def demo3_def)

text \<open>
  Claim C8. For a playlist built from a non-empty track list of length \<open>n\<close>, the index is
  in \<open>[0, n)\<close> after construction and after every sequence of \<open>setIndex\<close>, \<open>next\<close> and
  \<open>prev\<close> calls; the tracks stay as constructed.
\<close>

theorem index_always_in_range:
  assumes "ts \<noteq> []"
  shows "0 \<le> index (navigate_all (new_Playlist ts) cs)
         \<and> index (navigate_all (new_Playlist ts) cs) < int (length ts)
         \<and> tracks (navigate_all (new_Playlist ts) cs) = ts"
proof -
  let ?q = "navigate_all (new_Playlist ts) cs"
  have keeps: "tracks ?q = tracks (new_Playlist ts) \<and> cursor_ok ?q"
    unfolding navigate_all_def using cursor_ok_new by (rule navigate_all_keeps)
  have "tracks (new_Playlist ts) = ts" by (simp add: new_Playlist_def)
  with keeps have same: "tracks ?q = ts" by simp
  from keeps have "cursor_ok ?q" by simp
  with same assms have "0 \<le> index ?q \<and> index ?q < int (length ts)"
    by (simp add: cursor_ok_def)
  with same show ?thesis by simp
qed

theorem index_always_in_range_witness:
  "demo3 \<noteq> []
   \<and> 0 \<le> index (navigate_all (new_Playlist demo3) [Prev, SetIndex 40, Next, Next])
   \<and> index (navigate_all (new_Playlist demo3) [Prev, SetIndex 40, Next, Next]) < int (length demo3)
   \<and> tracks (navigate_all (new_Playlist demo3) [Prev, SetIndex 40, Next, Next]) = demo3"
  using index_always_in_range [of demo3 "[Prev, SetIndex 40, Next, Next]"]
  by (simp add: demo3_def)

text \<open>
  Claim C9. In every playlist state whose cursor is in range, \<open>next\<close> followed by
  \<open>prev\<close> returns the track that \<open>current\<close> returned before and leaves the playlist as
  it was. These are all the states of a playlist: every empty playlist, and every state
  reached from the constructor, for any track list and any sequence of calls.
\<close>

theorem prev_undoes_next:
  "(cursor_ok p \<longrightarrow>
      fst (prev (snd (next p))) = current p
      \<and> current (snd (prev (snd (next p)))) = current p
      \<and> snd (prev (snd (next p))) = p)
   \<and> fst (prev (snd (next (navigate_all (new_Playlist ts) cs))))
       = current (navigate_all (new_Playlist ts) cs)
   \<and> snd (prev (snd (next (navigate_all (new_Playlist ts) cs))))
       = navigate_all (new_Playlist ts) cs"
proof -
  have "cursor_ok (navigate_all (new_Playlist ts) cs)" by (rule reachable_cursor_ok)
  then show ?thesis by (simp add: prev_after_next)
qed

theorem prev_undoes_next_witness:
  "cursor_ok \<lparr>tracks = demo3, index = 2\<rparr>
   \<and> fst (next \<lparr>tracks = demo3, index = 2\<rparr>) = Some (demo3 ! 0)
   \<and> fst (prev (snd (next \<lparr>tracks = demo3, index = 2\<rparr>))) = Some (demo3 ! 2)
   \<and> snd (prev (snd (next \<lparr>tracks = demo3, index = 2\<rparr>))) = \<lparr>tracks = demo3, index = 2\<rparr>"
  using prev_undoes_next [of "\<lparr>tracks = demo3, index = 2\<rparr>"]
  by (simp add: cursor_ok_def demo3_def current_def next_def setIndex_def Let_def js_rem_def
      signed_modulo_int_def)

section \<open>Audio engine: seeking and the time report\<close>

text \<open>
  Claim C4. When the duration is known and greater than 0, \<open>seekPercent p\<close> sets the
  current time to the product of \<open>p\<close> and the duration and changes nothing else; when
  the duration is 0 or unknown (NaN), or in any other way not greater than 0, it leaves
  the element as it is. With a duration of 120 seconds, seeking to 0.5 gives 60 seconds.
\<close>

theorem seekPercent_sets_or_keeps:
  "(duration a = Num d \<and> 0 < d \<and> p = Num r \<longrightarrow>
       seekPercent a p = a\<lparr>currentTime := Num (r * d)\<rparr>)
   \<and> (js_gt (duration a) (Num 0) \<longrightarrow>
         seekPercent a p = a\<lparr>currentTime := js_mul p (duration a)\<rparr>)
   \<and> (duration a = Num 0 \<or> duration a = NaN \<longrightarrow> seekPercent a p = a)
   \<and> (\<not> js_gt (duration a) (Num 0) \<longrightarrow> seekPercent a p = a)"
  by (auto simp add: seekPercent_def)

theorem seekPercent_sets_or_keeps_witness:
  "duration \<lparr>src = [], currentTime = Num 3, duration = Num 120\<rparr> = Num 120
   \<and> (0::real) < 120
   \<and> seekPercent \<lparr>src = [], currentTime = Num 3, duration = Num 120\<rparr> (Num 0.5)
       = \<lparr>src = [], currentTime = Num 60, duration = Num 120\<rparr>
   \<and> seekPercent \<lparr>src = [], currentTime = Num 3, duration = Num 0\<rparr> (Num 0.5)
       = \<lparr>src = [], currentTime = Num 3, duration = Num 0\<rparr>
   \<and> seekPercent \<lparr>src = [], currentTime = Num 3, duration = NaN\<rparr> (Num 0.5)
       = \<lparr>src = [], currentTime = Num 3, duration = NaN\<rparr>"
  using seekPercent_sets_or_keeps
      [of "\<lparr>src = [], currentTime = Num 3, duration = Num 120\<rparr>" 120 "Num 0.5" "0.5"]
    seekPercent_sets_or_keeps
      [of "\<lparr>src = [], currentTime = Num 3, duration = Num 0\<rparr>" 0 "Num 0.5" "0.5"]
    seekPercent_sets_or_keeps
      [of "\<lparr>src = [], currentTime = Num 3, duration = NaN\<rparr>" 0 "Num 0.5" "0.5"]
  by simp











section \<open>Audio engine: the generated tone\<close>

lemma len_value: "len = 2000"
  by (simp add: len_def to_int32_def sampleRate_def seconds_def)

text \<open>The loop appends one code unit for each index from \<open>i\<close> up to \<open>len - 1\<close>.\<close>

lemma data_loop_unfold:
  "data_loop i d = d @ map (\<lambda>k. nat (u8 k mod 65536)) [i..len - 1]"
proof (induction i d rule: data_loop.induct)
  case (1 i d)
  show ?case
  proof (cases "i < len")
    case True
    then have "[i..len - 1] = i # [i + 1..len - 1]"
      by (simp add: upto_rec1)
    with True "1.IH" show ?thesis
      by (simp add: fromCharCode_def)
  next
    case False
    then show ?thesis by simp
  qed
qed

lemma data_map: "data = map (\<lambda>k. nat (u8 k mod 65536)) [0..1999]"
  by (simp add: data_def data_loop_unfold len_value del: data_loop.simps)

lemma length_data: "length data = 2000"
  by (simp add: data_map)

lemma header_bytes:
  "header = [82, 73, 70, 70, 63, 63, 63, 63, 87, 65, 86, 69, 102, 109, 116, 32,
             16, 0, 0, 0, 1, 0, 1, 0, 64, 31, 0, 0, 1, 0, 8, 0,
             100, 97, 116, 97, 63, 63, 63, 63]"
  by (simp add: header_def str_def fromCharCode_def sampleRate_def)

lemma size_values: "totalSize = 2036" "chunkSize = 2000"
  by (simp_all add: totalSize_def chunkSize_def length_data)

lemma replacements_plain:
  shows "take 4 (u32 totalSize) = [244, 7, 0, 0]"
    and "take 4 (u32 chunkSize) = [208, 7, 0, 0]"
  by (simp_all add: size_values u32_def fromCharCode_def)

lemma wav_bytes:
  "wav = [82, 73, 70, 70, 244, 7, 0, 0, 87, 65, 86, 69, 102, 109, 116, 32,
          16, 0, 0, 0, 1, 0, 1, 0, 64, 31, 0, 0, 1, 0, 8, 0,
          100, 97, 116, 97, 208, 7, 0, 0] @ data"
  by (simp add: wav_def header_bytes replacements_plain str_def)

text \<open>The amplitude: the sine stays in \<open>[-1, 1]\<close>, the scaled value in \<open>[38.25, 216.75]\<close>.\<close>

lemma v_range: "- 1 \<le> v i" "v i \<le> 1"
  by (simp_all add: v_def)

lemma scaled_range:
  shows "38.25 \<le> (v i * 0.35 + 0.5) * 255" and "(v i * 0.35 + 0.5) * 255 \<le> 216.75"
  using v_range [of i] by simp_all

lemma to_int32_floor:
  assumes "0 \<le> x" and "x < 2 ^ 31"
  shows "to_int32 x = \<lfloor>x\<rfloor>"
proof -
  from assms have "0 \<le> \<lfloor>x\<rfloor>" "\<lfloor>x\<rfloor> < 2 ^ 31"
    by (simp_all add: floor_less_iff)
  then have "\<lfloor>x\<rfloor> mod 2 ^ 32 = \<lfloor>x\<rfloor>" by simp
  with assms \<open>\<lfloor>x\<rfloor> < 2 ^ 31\<close> show ?thesis
    by (simp add: to_int32_def Let_def)
qed

lemma u8_floor: "u8 i = \<lfloor>(v i * 0.35 + 0.5) * 255\<rfloor>"
proof -
  have "0 \<le> (v i * 0.35 + 0.5) * 255" "(v i * 0.35 + 0.5) * 255 < 2 ^ 31"
    using scaled_range [of i] by simp_all
  then show ?thesis unfolding u8_def by (rule to_int32_floor)
qed

lemma u8_range: "38 \<le> u8 i" "u8 i \<le> 216"
proof -
  have "of_int 38 \<le> (v i * 0.35 + 0.5) * 255"
    using scaled_range(1) [of i] by simp
  then show "38 \<le> u8 i" unfolding u8_floor by (simp only: le_floor_iff)
  have "(v i * 0.35 + 0.5) * 255 < of_int 217"
    using scaled_range(2) [of i] by simp
  then have "\<lfloor>(v i * 0.35 + 0.5) * 255\<rfloor> < 217" by (simp only: floor_less_iff)
  then show "u8 i \<le> 216" unfolding u8_floor by simp
qed

lemma data_nth:
  assumes "i < 2000"
  shows "data ! i = nat (u8 (int i))"
proof -
  have "[0..1999] ! i = 0 + int i" using assms by (intro nth_upto) simp
  moreover have "i < length [0..1999::int]" using assms by simp
  ultimately have "data ! i = nat (u8 (int i) mod 65536)"
    by (simp add: data_map)
  moreover have "u8 (int i) mod 65536 = u8 (int i)"
    using u8_range [of "int i"] by simp
  ultimately show ?thesis by simp
qed

lemma data_bytes:
  assumes "c \<in> set data"
  shows "38 \<le> c \<and> c \<le> 216"
proof -
  from assms obtain k where "c = nat (u8 k mod 65536)" by (auto simp add: data_map)
  moreover have "u8 k mod 65536 = u8 k" using u8_range [of k] by simp
  ultimately show ?thesis using u8_range [of k] by linarith
qed

lemma wav_is_binary: "\<not> list_ex (\<lambda>c. 255 < c) wav"
proof -
  have "\<not> list_ex (\<lambda>c. 255 < c) data"
    using data_bytes by (fastforce simp add: list_ex_iff)
  then show ?thesis by (simp add: wav_bytes)
qed

lemma tinyBeepDataURI_value:
  "tinyBeepDataURI = Inr (''data:audio/wav;base64,'' @ b64_encode wav)"
  by (simp add: tinyBeepDataURI_def btoa_def wav_is_binary)

lemma sample_formula:
  "u8 i = \<lfloor>sin (2 * pi * 440 * real_of_int i / 8000) * 0.35 * 255 + 0.5 * 255\<rfloor>"
proof -
  have "(v i * 0.35 + 0.5) * 255
        = sin (2 * pi * 440 * real_of_int i / 8000) * 0.35 * 255 + 0.5 * 255"
    by (simp add: v_def freq_def sampleRate_def algebra_simps)
  then show ?thesis by (simp only: u8_floor)
qed

text \<open>
  Claim C2. The tone has \<open>len = 2000\<close> samples and its data part is 2000 bytes long. The
  header that the code assembles is 40 bytes long, not 44: after the sample rate the
  format block holds the four bytes \<open>1, 0, 8, 0\<close> where the canonical layout has eight
  (byte rate, block alignment, bits per sample). The whole string is therefore 2040
  bytes long, while the size it declares in bytes 4 to 7 is \<open>36 + 2000\<close>, the value for a
  file of 2044 bytes.
\<close>

theorem tone_wav_layout:
  "len = 2000 \<and> length data = 2000 \<and> length header = 40 \<and> length wav = 2040
   \<and> wav = [82, 73, 70, 70, 244, 7, 0, 0, 87, 65, 86, 69, 102, 109, 116, 32,
            16, 0, 0, 0, 1, 0, 1, 0, 64, 31, 0, 0, 1, 0, 8, 0,
            100, 97, 116, 97, 208, 7, 0, 0] @ data
   \<and> totalSize = 2036 \<and> chunkSize = 2000
   \<and> take 4 (drop 4 wav) = u32 2036"
proof -
  have "length header = 40" by (simp add: header_bytes)
  moreover have "length wav = 2040" by (simp add: wav_bytes length_data)
  moreover have "take 4 (drop 4 wav) = u32 2036"
    by (simp add: wav_bytes u32_def fromCharCode_def)
  moreover have "totalSize = 2036 \<and> chunkSize = 2000"
    by (simp add: size_values)
  ultimately show ?thesis
    using len_value length_data wav_bytes by simp
qed

text \<open>
  Claim C3. For every index \<open>i\<close> below \<open>len = 2000\<close>, the \<open>i\<close>-th sample byte of the tone,
  which is byte \<open>40 + i\<close> of the whole string, is
  \<open>floor (sin (2 pi 440 i / 8000) * 0.35 * 255 + 0.5 * 255)\<close>, in exact real arithmetic.
\<close>

theorem sample_is_sine_floor:
  assumes "i < 2000"
  shows "int (data ! i) = \<lfloor>sin (2 * pi * 440 * real i / 8000) * 0.35 * 255 + 0.5 * 255\<rfloor>
         \<and> wav ! (40 + i) = data ! i
         \<and> len = 2000 \<and> length data = 2000"
proof -
  have "0 \<le> u8 (int i)" using u8_range(1) [of "int i"] by simp
  with assms have "int (data ! i) = u8 (int i)" by (simp add: data_nth)
  then have "int (data ! i) = \<lfloor>sin (2 * pi * 440 * real i / 8000) * 0.35 * 255 + 0.5 * 255\<rfloor>"
    by (simp add: sample_formula)
  moreover have "wav ! (40 + i) = data ! i"
    by (simp add: wav_bytes nth_append)
  ultimately show ?thesis by (simp add: len_value length_data)
qed

theorem sample_is_sine_floor_witness:
  "(0::nat) < 2000 \<and> data ! 0 = 127 \<and> wav ! 40 = 127"
  using sample_is_sine_floor [of 0] by simp

text \<open>
  Claim C10. Every sample byte of the tone lies in \<open>[38, 216]\<close>: the sine is within
  \<open>[-1, 1]\<close>, so the value before truncation is within \<open>[38.25, 216.75]\<close>; the conversion
  to a 32-bit integer is then the floor, and the code unit is that integer, below 256,
  with nothing wrapped or clipped.
\<close>

theorem samples_within_byte_range:
  assumes "i < length data"
  shows "38 \<le> data ! i \<and> data ! i \<le> 216 \<and> data ! i < 256
         \<and> int (data ! i) = u8 (int i)
         \<and> u8 (int i) = \<lfloor>(v (int i) * 0.35 + 0.5) * 255\<rfloor>
         \<and> 38.25 \<le> (v (int i) * 0.35 + 0.5) * 255
         \<and> (v (int i) * 0.35 + 0.5) * 255 \<le> 216.75"
proof -
  from assms have "data ! i \<in> set data" by simp
  then have "38 \<le> data ! i \<and> data ! i \<le> 216" by (rule data_bytes)
  moreover have "int (data ! i) = u8 (int i)"
  proof -
    from assms have "i < 2000" by (simp add: length_data)
    then have "data ! i = nat (u8 (int i))" by (rule data_nth)
    moreover have "0 \<le> u8 (int i)" using u8_range(1) [of "int i"] by simp
    ultimately show ?thesis by simp
  qed
  ultimately show ?thesis
    using u8_floor [of "int i"] scaled_range [of "int i"] by simp
qed

theorem samples_within_byte_range_witness:
  "1999 < length data \<and> 38 \<le> data ! 1999 \<and> data ! 1999 \<le> 216 \<and> data ! 1999 < 256"
  using samples_within_byte_range [of 1999] by (simp add: length_data)

section \<open>Audio engine: loading\<close>

text \<open>
  Claim C6. The tone is always available: building its data URI raises nothing. Loading
  no track, or a track whose \<open>audioUrl\<close> is empty, succeeds and leaves the data URI of the
  tone as the source of the element; loading a track with a non-empty \<open>audioUrl\<close>
  succeeds and leaves exactly that \<open>audioUrl\<close> as the source. The element's own \<open>load()\<close>
  is assumed to keep the source it is given.
\<close>

theorem load_source:
  assumes "\<forall>f. elem_load = Some f \<longrightarrow> (\<forall>b. src (f b) = src b)"
  shows "tinyBeepDataURI = Inr (''data:audio/wav;base64,'' @ b64_encode wav)
         \<and> (\<exists>a'. load elem_load a None = Inr a' \<and> Inr (src a') = tinyBeepDataURI)
         \<and> (audioUrl t = [] \<longrightarrow>
               (\<exists>a'. load elem_load a (Some t) = Inr a' \<and> Inr (src a') = tinyBeepDataURI))
         \<and> (audioUrl t \<noteq> [] \<longrightarrow>
               (\<exists>a'. load elem_load a (Some t) = Inr a' \<and> src a' = audioUrl t))"
proof (cases elem_load)
  case None
  then show ?thesis
    by (simp add: load_def tinyBeepDataURI_value)
next
  case (Some f)
  with assms have "\<forall>b. src (f b) = src b" by simp
  with Some show ?thesis
    by (simp add: load_def tinyBeepDataURI_value)
qed

theorem load_source_witness:
  "(\<exists>a'. load (Some rewind) idle_audio None = Inr a' \<and> Inr (src a') = tinyBeepDataURI)
   \<and> audioUrl (demo3 ! 2) = []
   \<and> (\<exists>a'. load (Some rewind) idle_audio (Some (demo3 ! 2)) = Inr a'
            \<and> Inr (src a') = tinyBeepDataURI)
   \<and> (\<exists>a'. load (Some rewind) idle_audio (Some (demo3 ! 0)) = Inr a'
            \<and> src a' = ''assets/musics/1.mp3'')"
proof -
  have keeps: "\<forall>f. Some rewind = Some f \<longrightarrow> (\<forall>b. src (f b) = src b)"
    by (simp add: rewind_def)
  from load_source [OF keeps, of idle_audio "demo3 ! 2"]
    load_source [OF keeps, of idle_audio "demo3 ! 0"]
  show ?thesis by (simp add: demo3_def)
qed

end
